theory Spec2Isabelle
  imports Main
begin

section \<open>JavaScript values\<close>

text \<open>
  The container is generic in its state type and compares selected values with the
  \<^verbatim>\<open>===\<close> operator, so the embedding needs JavaScript's values with their identity.
  Primitives are compared by value; symbols, objects and arrays carry the identity of
  their reference (a natural number) and are compared by it alone. Numbers are the
  integers and \<^verbatim>\<open>NaN\<close> (the one number not identical to itself).
\<close>

datatype jsval =
    JUndefined
  | JNull
  | JBool bool
  | JNum int
  | JNaN
  | JStr string
  | JSym nat
  | JObj nat "(string \<times> jsval) list"
  | JArr nat "jsval list"

text \<open>The operator \<^verbatim>\<open>a === b\<close>.\<close>

fun strict_eq :: "jsval \<Rightarrow> jsval \<Rightarrow> bool" where
  "strict_eq JUndefined JUndefined = True"
| "strict_eq JNull JNull = True"
| "strict_eq (JBool a) (JBool b) = (a = b)"
| "strict_eq (JNum a) (JNum b) = (a = b)"
| "strict_eq (JStr a) (JStr b) = (a = b)"
| "strict_eq (JSym i) (JSym j) = (i = j)"
| "strict_eq (JObj i _) (JObj j _) = (i = j)"
| "strict_eq (JArr i _) (JArr j _) = (i = j)"
| "strict_eq _ _ = False"

text \<open>Truthiness, as \<^verbatim>\<open>x && ...\<close> and \<^verbatim>\<open>x ? ... : ...\<close> read a value.\<close>

fun truthy :: "jsval \<Rightarrow> bool" where
  "truthy JUndefined = False"
| "truthy JNull = False"
| "truthy (JBool b) = b"
| "truthy (JNum n) = (n \<noteq> 0)"
| "truthy JNaN = False"
| "truthy (JStr s) = (s \<noteq> [])"
| "truthy (JSym _) = True"
| "truthy (JObj _ _) = True"
| "truthy (JArr _ _) = True"

fun typeof_val :: "jsval \<Rightarrow> string" where
  "typeof_val JUndefined = ''undefined''"
| "typeof_val JNull = ''object''"
| "typeof_val (JBool _) = ''boolean''"
| "typeof_val (JNum _) = ''number''"
| "typeof_val JNaN = ''number''"
| "typeof_val (JStr _) = ''string''"
| "typeof_val (JSym _) = ''symbol''"
| "typeof_val (JObj _ _) = ''object''"
| "typeof_val (JArr _ _) = ''object''"




section \<open>Arguments and callbacks\<close>

text \<open>
  An argument of \<^verbatim>\<open>subscribe\<close> or \<^verbatim>\<open>update\<close> is any JavaScript value: a plain value
  or a function. An omitted argument is \<open>Data JUndefined\<close>.
\<close>

datatype 'f arg = Data jsval | Fn 'f

fun typeof :: "'f arg \<Rightarrow> string" where
  "typeof (Fn _) = ''function''"
| "typeof (Data v) = typeof_val v"

fun truthy_arg :: "'f arg \<Rightarrow> bool" where
  "truthy_arg (Fn _) = True"
| "truthy_arg (Data v) = truthy v"

fun fn_of :: "'f arg \<Rightarrow> 'f option" where
  "fn_of (Fn f) = Some f"
| "fn_of (Data _) = None"

text \<open>What a \<^verbatim>\<open>throw\<close> carries: the \<^verbatim>\<open>Error\<close> objects the source constructs, the
  runtime's \<^verbatim>\<open>TypeError\<close> for a call of a non-function, or whatever a callback throws.\<close>

datatype exn = Error string | TypeError string | Thrown jsval

text \<open>
  A subscriber is a function called for its effect: it is known by its identity, and
  each call of it is recorded in the trace with the argument it received (as a mock
  function of the test suite records its calls). Selectors and comparators return
  normally, a reducer may throw. In the operations of the next two sections a
  subscriber only returns; the section after them lets it call \<^verbatim>\<open>update\<close>.
\<close>

type_synonym subscriber = nat
type_synonym selector = "jsval \<Rightarrow> jsval"
type_synonym comparator = "jsval \<Rightarrow> jsval \<Rightarrow> bool"
type_synonym reducer = "jsval \<Rightarrow> exn + jsval"

text \<open>The observable effects. \<open>ConsoleLog\<close> is an entry written to a log sink; the
  source contains no logging call, so no definition below produces one.\<close>

datatype effect =
    CallReducer jsval
  | CallSubscriber subscriber jsval
  | ConsoleLog jsval

fun logged :: "effect list \<Rightarrow> jsval list" where
  "logged [] = []"
| "logged (ConsoleLog e # es) = e # logged es"
| "logged (_ # es) = logged es"

fun invocations :: "subscriber \<Rightarrow> effect list \<Rightarrow> jsval list" where
  "invocations f [] = []"
| "invocations f (CallSubscriber g v # es) =
     (if g = f then v # invocations f es else invocations f es)"
| "invocations f (_ # es) = invocations f es"

fun reducer_calls :: "effect list \<Rightarrow> jsval list" where
  "reducer_calls [] = []"
| "reducer_calls (CallReducer s # es) = s # reducer_calls es"
| "reducer_calls (_ # es) = reducer_calls es"

section \<open>The publish/subscribe primitive\<close>

text \<open>
  Modelled from the spec: the package \<^verbatim>\<open>pusu\<close> (\<^verbatim>\<open>createPublication\<close>, \<^verbatim>\<open>subscribe\<close>,
  \<^verbatim>\<open>publish\<close>) is imported by the source and is not part of it. A publication keeps
  its registered handlers in registration order, each under the handle its
  registration returned.
\<close>

record 'h publication =
  config :: jsval
  subscribers :: "(nat \<times> 'h) list"
  next_handle :: nat

text \<open>Modelled from the spec: \<^verbatim>\<open>pusu.createPublication\<close> allocates a topic with no handler.\<close>

definition pusu_createPublication :: "jsval \<Rightarrow> 'h publication" where
  "pusu_createPublication a = \<lparr>config = a, subscribers = [], next_handle = 0\<rparr>"

text \<open>Modelled from the spec: \<^verbatim>\<open>pusu.subscribe\<close> registers the handler after those
  already registered and returns the handle that removes this registration.\<close>

definition pusu_subscribe :: "'h publication \<Rightarrow> 'h \<Rightarrow> nat \<times> 'h publication" where
  "pusu_subscribe pub h =
     (next_handle pub,
      pub\<lparr>subscribers := subscribers pub @ [(next_handle pub, h)],
          next_handle := Suc (next_handle pub)\<rparr>)"

text \<open>Modelled from the spec: calling the handle removes its registration, and a
  repeated call is a no-op that does not raise.\<close>

definition pusu_unsubscribe :: "nat \<Rightarrow> 'h publication \<Rightarrow> (exn + unit) \<times> 'h publication" where
  "pusu_unsubscribe u pub =
     (Inr (), pub\<lparr>subscribers := filter (\<lambda>(i, h). i \<noteq> u) (subscribers pub)\<rparr>)"

text \<open>Modelled from the spec: \<^verbatim>\<open>pusu.publish\<close> delivers synchronously to every handler
  registered at that moment, in registration order. \<open>deliver\<close> is the call of one
  handler with the published value.\<close>

definition pusu_publish :: "'h publication \<Rightarrow> ('h \<Rightarrow> 'w \<Rightarrow> 'w) \<Rightarrow> 'w \<Rightarrow> 'w" where
  "pusu_publish pub deliver w = foldl (\<lambda>w' (i, h). deliver h w') w (subscribers pub)"

section \<open>The container\<close>

text \<open>
  The handler that \<^verbatim>\<open>subscribe\<close> registers is a closure over its three arguments.
  It is registered only after validation, when \<^verbatim>\<open>subscriber\<close> is a function and each
  of \<^verbatim>\<open>selector\<close> and \<^verbatim>\<open>isEqual\<close> is a function or falsy; the record keeps exactly
  that: \<open>None\<close> stands for a falsy argument, which the closure's conditionals read as
  absent.
\<close>

record handler =
  h_subscriber :: subscriber
  h_selector :: "selector option"
  h_isEqual :: "comparator option"

record cell_state =
  previousState :: jsval
  currentState :: jsval
  publication :: "handler publication"
  trace :: "effect list"

text \<open>\<^verbatim>\<open>selector ? selector(s) : s\<close>\<close>

definition select :: "selector option \<Rightarrow> jsval \<Rightarrow> jsval" where
  "select sel s = (case sel of Some f \<Rightarrow> f s | None \<Rightarrow> s)"

text \<open>\<^verbatim>\<open>isEqual ? isEqual : (a, b) => a === b\<close>\<close>

definition fnIsEqual :: "comparator option \<Rightarrow> comparator" where
  "fnIsEqual eq = (case eq of Some e \<Rightarrow> e | None \<Rightarrow> strict_eq)"

text \<open>The function registered with \<^verbatim>\<open>pusu.subscribe\<close>, for subscribers that only
  return: it receives the published \<^verbatim>\<open>state\<close> and reads the container's
  \<^verbatim>\<open>previousState\<close>, which such subscribers leave as \<^verbatim>\<open>update\<close> set it for the whole
  broadcast. \<open>wrapper_live\<close> below is the function for subscribers that call back, and
  agrees with this one on those that do not.\<close>

definition wrapper :: "handler \<Rightarrow> jsval \<Rightarrow> jsval \<Rightarrow> effect list \<Rightarrow> effect list" where
  "wrapper h previousState' state tr =
     (let prevSelectedState = select (h_selector h) previousState';
          currSelectedState = select (h_selector h) state
      in if \<not> fnIsEqual (h_isEqual h) currSelectedState prevSelectedState
         then tr @ [CallSubscriber (h_subscriber h) currSelectedState]
         else tr)"

text \<open>\<^verbatim>\<open>cell(initialState)\<close>: one publication and the two state variables. The trace
  starts empty.\<close>

definition cell :: "jsval \<Rightarrow> cell_state" where
  "cell initialState =
     \<lparr>previousState = initialState,
      currentState = initialState,
      publication = pusu_createPublication (JStr ''cell''),
      trace = []\<rparr>"

text \<open>A call \<^verbatim>\<open>cell(a\<^sub>1, ..., a\<^sub>n)\<close>: the function has the one parameter
  \<^verbatim>\<open>initialState\<close>, which is the first argument (\<^verbatim>\<open>undefined\<close> when there is none);
  further arguments are not read.\<close>

definition cell_call :: "jsval list \<Rightarrow> cell_state" where
  "cell_call args = cell (case args of [] \<Rightarrow> JUndefined | initialState # rest \<Rightarrow> initialState)"

text \<open>
  \<^verbatim>\<open>subscribe\<close>: the three checks in the source's order, then the registration, then
  the immediate call of the subscriber. \<open>fn_of subscriber = None\<close> is the test
  \<^verbatim>\<open>typeof subscriber !== "function"\<close>; past it the subscriber is the function \<open>sub\<close>.
  A failure returns the container as it was given.
\<close>

definition subscribe ::
  "subscriber arg \<Rightarrow> selector arg \<Rightarrow> comparator arg \<Rightarrow> cell_state \<Rightarrow> (exn + nat) \<times> cell_state"
where
  "subscribe subscriber selector isEqual c =
     (case fn_of subscriber of
        None \<Rightarrow> (Inl (Error ''subscriber must be a function.''), c)
      | Some sub \<Rightarrow>
          if truthy_arg selector \<and> typeof selector \<noteq> ''function''
          then (Inl (Error ''selector must be a function.''), c)
          else if truthy_arg isEqual \<and> typeof isEqual \<noteq> ''function''
          then (Inl (Error ''isEqual must be a function.''), c)
          else
            let (unsubscribe', pub) =
                  pusu_subscribe (publication c)
                    \<lparr>h_subscriber = sub, h_selector = fn_of selector, h_isEqual = fn_of isEqual\<rparr>;
                c1 = c\<lparr>publication := pub\<rparr>
            in (Inr unsubscribe',
                c1\<lparr>trace := trace c1 @
                   [CallSubscriber sub (select (fn_of selector) (currentState c1))]\<rparr>))"

text \<open>
  \<^verbatim>\<open>update\<close>: \<^verbatim>\<open>previousState\<close> is assigned first, then the reducer is called (a call of
  a value that is not a function is the runtime's \<^verbatim>\<open>TypeError\<close>), and only when it
  has returned is \<^verbatim>\<open>currentState\<close> assigned and published. What is thrown on the
  way leaves the assignments made so far in place.
\<close>

definition update :: "reducer arg \<Rightarrow> cell_state \<Rightarrow> (exn + unit) \<times> cell_state" where
  "update reducer c =
     (let c1 = c\<lparr>previousState := currentState c\<rparr> in
      case reducer of
        Data v \<Rightarrow> (Inl (TypeError ''reducer is not a function''), c1)
      | Fn r \<Rightarrow>
          let c2 = c1\<lparr>trace := trace c1 @ [CallReducer (currentState c1)]\<rparr> in
          (case r (currentState c1) of
             Inl e \<Rightarrow> (Inl e, c2)
           | Inr s \<Rightarrow>
               let c3 = c2\<lparr>currentState := s\<rparr> in
               (Inr (),
                c3\<lparr>trace :=
                     pusu_publish (publication c3)
                       (\<lambda>h. wrapper h (previousState c3) (currentState c3)) (trace c3)\<rparr>)))"

text \<open>Calling the function that \<^verbatim>\<open>subscribe\<close> returned.\<close>

definition unsubscribe :: "nat \<Rightarrow> cell_state \<Rightarrow> (exn + unit) \<times> cell_state" where
  "unsubscribe u c =
     (let (r, pub) = pusu_unsubscribe u (publication c) in (r, c\<lparr>publication := pub\<rparr>))"

section \<open>Subscribers that call back into the container\<close>

text \<open>
  A subscriber is a function of the caller's: besides being called it may itself call
  \<^verbatim>\<open>update\<close>. The handler then runs while the container changes under it: it reads
  the variable \<^verbatim>\<open>previousState\<close> when it is called, not when the broadcast began.
  This section gives the handler, the broadcast and \<^verbatim>\<open>update\<close> for such subscribers;
  \<open>wrapper\<close> and \<open>update\<close> above are the case of subscribers that only return.

  What a subscriber does when it is called with a value is its \<open>behaviour\<close>: the
  transforms it passes to \<^verbatim>\<open>update\<close>, one call after the other. The transforms of
  nested calls return normally. Subscribers that throw, or that subscribe or
  unsubscribe during a broadcast, are not modelled: what the primitive does then is
  neither in the source nor in the specification.

  A nested call is a call on the stack, so the depth of nesting is bounded by a
  counter; \<open>None\<close> says that the bound was reached before the call returned.
\<close>

type_synonym behaviour = "subscriber \<Rightarrow> jsval \<Rightarrow> (jsval \<Rightarrow> jsval) list"

type_synonym nested_update = "(jsval \<Rightarrow> jsval) \<Rightarrow> cell_state \<Rightarrow> cell_state option"

text \<open>The subscribers that only return.\<close>

definition silent :: behaviour where
  "silent f v = []"

text \<open>The \<^verbatim>\<open>update\<close> calls made by one subscriber call, in order; \<open>upd\<close> is
  \<^verbatim>\<open>update\<close> as the subscriber can call it.\<close>

fun nested_updates :: "nested_update \<Rightarrow> (jsval \<Rightarrow> jsval) list \<Rightarrow> cell_state \<Rightarrow> cell_state option" where
  "nested_updates upd [] c = Some c"
| "nested_updates upd (t # ts) c =
     (case upd t c of None \<Rightarrow> None | Some c' \<Rightarrow> nested_updates upd ts c')"

text \<open>The call \<^verbatim>\<open>subscriber(v)\<close>: it is recorded, then the subscriber does what it does.\<close>

definition call_subscriber ::
  "nested_update \<Rightarrow> behaviour \<Rightarrow> subscriber \<Rightarrow> jsval \<Rightarrow> cell_state \<Rightarrow> cell_state option" where
  "call_subscriber upd beh f v c =
     nested_updates upd (beh f v) (c\<lparr>trace := trace c @ [CallSubscriber f v]\<rparr>)"


text \<open>Modelled from the spec: \<^verbatim>\<open>pusu.publish\<close> with handlers that act on the world they
  are called in. The handlers registered when \<^verbatim>\<open>publish\<close> is called are called in
  registration order, each running to completion, with all it calls, before the next.\<close>

fun pusu_publish_live :: "(nat \<times> 'h) list \<Rightarrow> ('h \<Rightarrow> 'w \<Rightarrow> 'w option) \<Rightarrow> 'w \<Rightarrow> 'w option" where
  "pusu_publish_live [] deliver w = Some w"
| "pusu_publish_live ((i, h) # hs) deliver w =
     (case deliver h w of None \<Rightarrow> None | Some w' \<Rightarrow> pusu_publish_live hs deliver w')"



text \<open>\<^verbatim>\<open>subscribe\<close>, whose immediate call of the subscriber is such a call too.\<close>

definition subscribe_live ::
  "nested_update \<Rightarrow> behaviour \<Rightarrow> subscriber arg \<Rightarrow> selector arg \<Rightarrow> comparator arg \<Rightarrow> cell_state \<Rightarrow>
     ((exn + nat) \<times> cell_state) option"
where
  "subscribe_live upd beh subscriber selector isEqual c =
     (case fn_of subscriber of
        None \<Rightarrow> Some (Inl (Error ''subscriber must be a function.''), c)
      | Some sub \<Rightarrow>
          if truthy_arg selector \<and> typeof selector \<noteq> ''function''
          then Some (Inl (Error ''selector must be a function.''), c)
          else if truthy_arg isEqual \<and> typeof isEqual \<noteq> ''function''
          then Some (Inl (Error ''isEqual must be a function.''), c)
          else
            let (unsubscribe', pub) =
                  pusu_subscribe (publication c)
                    \<lparr>h_subscriber = sub, h_selector = fn_of selector, h_isEqual = fn_of isEqual\<rparr>;
                c1 = c\<lparr>publication := pub\<rparr>
            in map_option (Pair (Inr unsubscribe'))
                 (call_subscriber upd beh sub (select (fn_of selector) (currentState c1)) c1))"

text \<open>Every handle in use was handed out earlier: the next registration's handle is new.
  This holds at creation and is kept by every operation.\<close>

definition handles_fresh :: "cell_state \<Rightarrow> bool" where
  "handles_fresh c = list_all (\<lambda>(i, h). i < next_handle (publication c)) (subscribers (publication c))"

section \<open>The variants of \<^verbatim>\<open>src/index.ts\<close>\<close>

text \<open>
  The file \<^verbatim>\<open>src/index.ts\<close> holds two more versions of the module. Both name the
  updating operation \<^verbatim>\<open>publish\<close> and the third argument of \<^verbatim>\<open>subscribe\<close>
  \<^verbatim>\<open>areEqual\<close>. The first calls \<^verbatim>\<open>pusu.createPublication({ name: "cell" })\<close>, the
  second \<^verbatim>\<open>pusu.createPublication("cell")\<close>. The function that \<^verbatim>\<open>subscribe\<close>
  registers is the same text in all three, so \<open>wrapper\<close> stands for it in each.
  The object literal given to \<^verbatim>\<open>createPublication\<close> has the reference \<open>0\<close>; nothing
  compares it.
\<close>

definition index1_cell :: "jsval \<Rightarrow> cell_state" where
  "index1_cell initialState =
     \<lparr>previousState = initialState,
      currentState = initialState,
      publication = pusu_createPublication (JObj 0 [(''name'', JStr ''cell'')]),
      trace = []\<rparr>"

definition index1_subscribe ::
  "subscriber arg \<Rightarrow> selector arg \<Rightarrow> comparator arg \<Rightarrow> cell_state \<Rightarrow> (exn + nat) \<times> cell_state"
where
  "index1_subscribe subscriber selector areEqual c =
     (case fn_of subscriber of
        None \<Rightarrow> (Inl (Error ''subscriber must be a function.''), c)
      | Some sub \<Rightarrow>
          if truthy_arg selector \<and> typeof selector \<noteq> ''function''
          then (Inl (Error ''selector must be a function.''), c)
          else if truthy_arg areEqual \<and> typeof areEqual \<noteq> ''function''
          then (Inl (Error ''areEqual must be a function.''), c)
          else
            let (unsubscribe', pub) =
                  pusu_subscribe (publication c)
                    \<lparr>h_subscriber = sub, h_selector = fn_of selector, h_isEqual = fn_of areEqual\<rparr>;
                c1 = c\<lparr>publication := pub\<rparr>
            in (Inr unsubscribe',
                c1\<lparr>trace := trace c1 @
                   [CallSubscriber sub (select (fn_of selector) (currentState c1))]\<rparr>))"

definition index1_publish :: "reducer arg \<Rightarrow> cell_state \<Rightarrow> (exn + unit) \<times> cell_state" where
  "index1_publish reducer c =
     (let c1 = c\<lparr>previousState := currentState c\<rparr> in
      case reducer of
        Data v \<Rightarrow> (Inl (TypeError ''reducer is not a function''), c1)
      | Fn r \<Rightarrow>
          let c2 = c1\<lparr>trace := trace c1 @ [CallReducer (currentState c1)]\<rparr> in
          (case r (currentState c1) of
             Inl e \<Rightarrow> (Inl e, c2)
           | Inr s \<Rightarrow>
               let c3 = c2\<lparr>currentState := s\<rparr> in
               (Inr (),
                c3\<lparr>trace :=
                     pusu_publish (publication c3)
                       (\<lambda>h. wrapper h (previousState c3) (currentState c3)) (trace c3)\<rparr>)))"

definition index2_cell :: "jsval \<Rightarrow> cell_state" where
  "index2_cell initialState =
     \<lparr>previousState = initialState,
      currentState = initialState,
      publication = pusu_createPublication (JStr ''cell''),
      trace = []\<rparr>"

definition index2_subscribe ::
  "subscriber arg \<Rightarrow> selector arg \<Rightarrow> comparator arg \<Rightarrow> cell_state \<Rightarrow> (exn + nat) \<times> cell_state"
where
  "index2_subscribe subscriber selector areEqual c =
     (case fn_of subscriber of
        None \<Rightarrow> (Inl (Error ''subscriber must be a function.''), c)
      | Some sub \<Rightarrow>
          if truthy_arg selector \<and> typeof selector \<noteq> ''function''
          then (Inl (Error ''selector must be a function.''), c)
          else if truthy_arg areEqual \<and> typeof areEqual \<noteq> ''function''
          then (Inl (Error ''areEqual must be a function.''), c)
          else
            let (unsubscribe', pub) =
                  pusu_subscribe (publication c)
                    \<lparr>h_subscriber = sub, h_selector = fn_of selector, h_isEqual = fn_of areEqual\<rparr>;
                c1 = c\<lparr>publication := pub\<rparr>
            in (Inr unsubscribe',
                c1\<lparr>trace := trace c1 @
                   [CallSubscriber sub (select (fn_of selector) (currentState c1))]\<rparr>))"

definition index2_publish :: "reducer arg \<Rightarrow> cell_state \<Rightarrow> (exn + unit) \<times> cell_state" where
  "index2_publish reducer c =
     (let c1 = c\<lparr>previousState := currentState c\<rparr> in
      case reducer of
        Data v \<Rightarrow> (Inl (TypeError ''reducer is not a function''), c1)
      | Fn r \<Rightarrow>
          let c2 = c1\<lparr>trace := trace c1 @ [CallReducer (currentState c1)]\<rparr> in
          (case r (currentState c1) of
             Inl e \<Rightarrow> (Inl e, c2)
           | Inr s \<Rightarrow>
               let c3 = c2\<lparr>currentState := s\<rparr> in
               (Inr (),
                c3\<lparr>trace :=
                     pusu_publish (publication c3)
                       (\<lambda>h. wrapper h (previousState c3) (currentState c3)) (trace c3)\<rparr>)))"

section \<open>The specification's vocabulary\<close>

text \<open>The three failures of \<^verbatim>\<open>subscribe\<close>, under the names the specification gives
  them; each is the \<^verbatim>\<open>Error\<close> the source throws.\<close>

definition InvalidSubscriber :: exn where
  "InvalidSubscriber = Error ''subscriber must be a function.''"

definition InvalidSelector :: exn where
  "InvalidSelector = Error ''selector must be a function.''"

definition InvalidEqualityPolicy :: exn where
  "InvalidEqualityPolicy = Error ''isEqual must be a function.''"

text \<open>An argument left out of a call.\<close>

definition omitted :: "'f arg" where
  "omitted = Data JUndefined"

text \<open>
  The dispatch algorithm in the specification's words: select from the old and the new
  state (the full state without a selector), compare with the equality policy (strict
  identity without one), and call the subscriber with the current selection when the
  comparison is false.
\<close>

definition dispatch_spec :: "handler \<Rightarrow> jsval \<Rightarrow> jsval \<Rightarrow> effect list" where
  "dispatch_spec h oldState newState =
     (let f = (case h_selector h of Some g \<Rightarrow> g | None \<Rightarrow> (\<lambda>s. s));
          eq = (case h_isEqual h of Some e \<Rightarrow> e | None \<Rightarrow> (\<lambda>a b. strict_eq a b));
          previousSelected = f oldState;
          currentSelected = f newState
      in if eq currentSelected previousSelected then []
         else [CallSubscriber (h_subscriber h) currentSelected])"

text \<open>A sequence of \<^verbatim>\<open>update\<close> calls, each run whether or not the one before threw.\<close>

definition run_updates :: "reducer arg list \<Rightarrow> cell_state \<Rightarrow> cell_state" where
  "run_updates rs c = foldl (\<lambda>c' r. snd (update r c')) c rs"

text \<open>A transform that returns normally.\<close>

definition pure_reducer :: "(jsval \<Rightarrow> jsval) \<Rightarrow> reducer arg" where
  "pure_reducer t = Fn (\<lambda>s. Inr (t s))"

text \<open>The folded states \<open>t\<^sub>1 s, t\<^sub>2 (t\<^sub>1 s), ...\<close> of a sequence of transforms.\<close>

fun folded :: "jsval \<Rightarrow> (jsval \<Rightarrow> jsval) list \<Rightarrow> jsval list" where
  "folded s [] = []"
| "folded s (t # ts) = t s # folded (t s) ts"

text \<open>The states of a sequence that are not identical to their predecessor, \<open>p\<close>
  being the predecessor of the first.\<close>

fun changes :: "jsval \<Rightarrow> jsval list \<Rightarrow> jsval list" where
  "changes p [] = []"
| "changes p (s # ss) = (if strict_eq s p then changes s ss else s # changes s ss)"




text \<open>The one message that differs between the versions: the third argument of
  \<^verbatim>\<open>subscribe\<close> is \<^verbatim>\<open>isEqual\<close> in one and \<^verbatim>\<open>areEqual\<close> in the two others.\<close>

definition rename_isEqual :: "exn \<Rightarrow> exn" where
  "rename_isEqual e =
     (if e = Error ''isEqual must be a function.'' then Error ''areEqual must be a function.'' else e)"





text \<open>A configuration object with a name and logging switched on, under the option's
  name in the specification and under its name in \<^verbatim>\<open>README.md\<close>.\<close>

definition logging_config :: jsval where
  "logging_config =
     JObj 9 [(''name'', JStr ''counter''), (''loggingEnabled'', JBool True),
             (''enableLogging'', JBool True)]"

section \<open>Basic facts\<close>

lemma cell_fields:
  "previousState (cell s) = s" "currentState (cell s) = s" "trace (cell s) = []"
  by (simp_all add: cell_def)

lemma typeof_Data: "typeof (Data v) \<noteq> ''function''"
  by (cases v) simp_all

lemma wrapper_dispatch: "wrapper h p s tr = tr @ dispatch_spec h p s"
  by (simp add: wrapper_def dispatch_spec_def select_def fnIsEqual_def Let_def
      split: option.splits)

lemma foldl_wrapper:
  "foldl (\<lambda>w (i, h). wrapper h p s w) tr hs = tr @ concat (map (\<lambda>(i, h). dispatch_spec h p s) hs)"
  by (induction hs arbitrary: tr) (auto simp: wrapper_dispatch)

lemma pusu_publish_wrapper:
  "pusu_publish pub (\<lambda>h. wrapper h p s) tr =
     tr @ concat (map (\<lambda>(i, h). dispatch_spec h p s) (subscribers pub))"
  by (simp add: pusu_publish_def foldl_wrapper)

lemma update_ok:
  "r (currentState c) = Inr N \<Longrightarrow>
   update (Fn r) c =
     (Inr (), c\<lparr>previousState := currentState c, currentState := N,
        trace := trace c @ CallReducer (currentState c) #
          concat (map (\<lambda>(i, h). dispatch_spec h (currentState c) N) (subscribers (publication c)))\<rparr>)"
  by (simp add: update_def Let_def pusu_publish_wrapper)

lemma update_throw:
  "r (currentState c) = Inl e \<Longrightarrow>
   update (Fn r) c =
     (Inl e, c\<lparr>previousState := currentState c,
        trace := trace c @ [CallReducer (currentState c)]\<rparr>)"
  by (simp add: update_def Let_def)

lemma update_not_callable:
  "update (Data v) c = (Inl (TypeError ''reducer is not a function''), c\<lparr>previousState := currentState c\<rparr>)"
  by (simp add: update_def Let_def)

lemma subscribe_ok:
  "\<not> (truthy_arg selector \<and> typeof selector \<noteq> ''function'') \<Longrightarrow>
   \<not> (truthy_arg isEqual \<and> typeof isEqual \<noteq> ''function'') \<Longrightarrow>
   subscribe (Fn f) selector isEqual c =
     (Inr (next_handle (publication c)),
      c\<lparr>publication := (publication c)\<lparr>subscribers := subscribers (publication c) @
            [(next_handle (publication c),
              \<lparr>h_subscriber = f, h_selector = fn_of selector, h_isEqual = fn_of isEqual\<rparr>)],
            next_handle := Suc (next_handle (publication c))\<rparr>,
        trace := trace c @ [CallSubscriber f (select (fn_of selector) (currentState c))]\<rparr>)"
  by (simp add: subscribe_def pusu_subscribe_def Let_def)

lemma invocations_append: "invocations f (xs @ ys) = invocations f xs @ invocations f ys"
  by (induction f xs rule: invocations.induct) auto

lemma logged_append: "logged (xs @ ys) = logged xs @ logged ys"
  by (induction xs rule: logged.induct) auto

lemma reducer_calls_append: "reducer_calls (xs @ ys) = reducer_calls xs @ reducer_calls ys"
  by (induction xs rule: reducer_calls.induct) auto

lemma logged_dispatch: "logged (concat (map (\<lambda>(i, h). dispatch_spec h p s) hs)) = []"
  by (induction hs) (auto simp: logged_append dispatch_spec_def Let_def)

lemma reducer_calls_dispatch:
  "reducer_calls (concat (map (\<lambda>(i, h). dispatch_spec h p s) hs)) = []"
  by (induction hs) (auto simp: reducer_calls_append dispatch_spec_def Let_def)

lemma invocations_dispatch_none:
  "\<forall>(i, h) \<in> set hs. h_subscriber h \<noteq> f \<Longrightarrow>
   invocations f (concat (map (\<lambda>(i, h). dispatch_spec h p s) hs)) = []"
  by (induction hs) (auto simp: invocations_append dispatch_spec_def Let_def)

lemma run_updates_Cons: "run_updates (r # rs) c = run_updates rs (snd (update r c))"
  by (simp add: run_updates_def)

lemma run_updates_Nil: "run_updates [] c = c"
  by (simp add: run_updates_def)

lemma update_publication: "publication (snd (update r c)) = publication c"
  by (cases r) (auto simp: update_def Let_def split: sum.splits)

lemma run_updates_publication: "publication (run_updates rs c) = publication c"
  by (induction rs arbitrary: c) (simp_all add: run_updates_Nil run_updates_Cons update_publication)

lemma update_pure:
  "update (pure_reducer t) c =
     (Inr (), c\<lparr>previousState := currentState c, currentState := t (currentState c),
        trace := trace c @ CallReducer (currentState c) #
          concat (map (\<lambda>(i, h). dispatch_spec h (currentState c) (t (currentState c)))
            (subscribers (publication c)))\<rparr>)"
  by (simp add: pure_reducer_def update_ok)

lemma updates_single:
  "subscribers (publication c) = [(u, \<lparr>h_subscriber = f, h_selector = None, h_isEqual = None\<rparr>)] \<Longrightarrow>
   invocations f (trace (run_updates (map pure_reducer ts) c)) =
     invocations f (trace c) @ changes (currentState c) (folded (currentState c) ts)"
proof (induction ts arbitrary: c)
  case Nil
  then show ?case by (simp add: run_updates_Nil)
next
  case (Cons t ts)
  let ?c' = "snd (update (pure_reducer t) c)"
  have subs: "subscribers (publication ?c') = [(u, \<lparr>h_subscriber = f, h_selector = None, h_isEqual = None\<rparr>)]"
    using Cons.prems by (simp add: update_publication)
  have cur: "currentState ?c' = t (currentState c)"
    by (simp add: update_pure)
  have tr: "invocations f (trace ?c') =
      invocations f (trace c) @
        (if strict_eq (t (currentState c)) (currentState c) then [] else [t (currentState c)])"
    using Cons.prems by (simp add: update_pure invocations_append dispatch_spec_def)
  show ?case
    using Cons.IH [OF subs] by (simp add: run_updates_Cons cur tr)
qed

lemma changes_all:
  "\<forall>i < length ss. \<not> strict_eq (ss ! i) ((p # ss) ! i) \<Longrightarrow> changes p ss = ss"
proof (induction ss arbitrary: p)
  case Nil
  then show ?case by simp
next
  case (Cons s ss)
  have h0: "\<not> strict_eq s p" using Cons.prems by (auto dest: spec [of _ 0])
  have "\<forall>i < length ss. \<not> strict_eq (ss ! i) ((s # ss) ! i)"
  proof (intro allI impI)
    fix i assume "i < length ss"
    then have "Suc i < length (s # ss)" by simp
    with Cons.prems have "\<not> strict_eq ((s # ss) ! Suc i) ((p # s # ss) ! Suc i)" by blast
    then show "\<not> strict_eq (ss ! i) ((s # ss) ! i)" by simp
  qed
  then show ?case using Cons.IH h0 by simp
qed

lemma length_folded: "length (folded s ts) = length ts"
  by (induction ts arbitrary: s) auto

lemma typeof_val_not_function: "typeof_val v \<noteq> ''function''"
  by (cases v) simp_all

lemma subscribe_data:
  "subscribe (Data v) selector isEqual c = (Inl (Error ''subscriber must be a function.''), c)"
  by (simp add: subscribe_def)

lemma subscribe_bad_selector:
  "truthy w \<Longrightarrow>
   subscribe (Fn f) (Data w) isEqual c = (Inl (Error ''selector must be a function.''), c)"
  by (simp add: subscribe_def typeof_val_not_function)

lemma subscribe_bad_isEqual:
  "truthy w \<Longrightarrow> \<not> truthy_arg selector \<or> typeof selector = ''function'' \<Longrightarrow>
   subscribe (Fn f) selector (Data w) c = (Inl (Error ''isEqual must be a function.''), c)"
  by (auto simp: subscribe_def typeof_val_not_function)

lemma update_invocations_none:
  assumes "\<forall>(i, h) \<in> set (subscribers (publication c)). h_subscriber h \<noteq> f"
  shows "invocations f (trace (snd (update r c))) = invocations f (trace c)"
proof (cases r)
  case (Data v)
  then show ?thesis by (simp add: update_not_callable)
next
  case (Fn g)
  show ?thesis
  proof (cases "g (currentState c)")
    case (Inl e)
    then show ?thesis using Fn by (simp add: update_throw invocations_append)
  next
    case (Inr N)
    then show ?thesis
      using Fn assms by (simp add: update_ok invocations_append invocations_dispatch_none)
  qed
qed

lemma run_updates_invocations_none:
  "\<forall>(i, h) \<in> set (subscribers (publication c)). h_subscriber h \<noteq> f \<Longrightarrow>
   invocations f (trace (run_updates rs c)) = invocations f (trace c)"
proof (induction rs arbitrary: c)
  case Nil
  then show ?case by (simp add: run_updates_Nil)
next
  case (Cons r rs)
  have "\<forall>(i, h) \<in> set (subscribers (publication (snd (update r c)))). h_subscriber h \<noteq> f"
    using Cons.prems by (simp add: update_publication)
  then show ?case
    using Cons.IH Cons.prems by (simp add: run_updates_Cons update_invocations_none)
qed

lemma unsubscribe_eq:
  "unsubscribe u c =
     (Inr (), c\<lparr>publication := (publication c)\<lparr>subscribers :=
        filter (\<lambda>(i, h). i \<noteq> u) (subscribers (publication c))\<rparr>\<rparr>)"
  by (simp add: unsubscribe_def pusu_unsubscribe_def)

lemma subscribe_fields:
  "previousState (snd (subscribe sub sel eq c)) = previousState c"
  "currentState (snd (subscribe sub sel eq c)) = currentState c"
  "logged (trace (snd (subscribe sub sel eq c))) = logged (trace c)"
  by (cases sub; simp add: subscribe_def pusu_subscribe_def Let_def logged_append)+

lemma update_logged: "logged (trace (snd (update r c))) = logged (trace c)"
proof (cases r)
  case (Data v)
  then show ?thesis by (simp add: update_not_callable)
next
  case (Fn g)
  then show ?thesis
    by (cases "g (currentState c)")
      (simp_all add: update_throw update_ok logged_append logged_dispatch)
qed

lemma update_reducer_calls:
  "reducer_calls (trace (snd (update (Fn r) c))) = reducer_calls (trace c) @ [currentState c]"
  by (cases "r (currentState c)")
    (simp_all add: update_throw update_ok reducer_calls_append reducer_calls_dispatch)



lemma fn_of_None_iff: "fn_of a = None \<longleftrightarrow> typeof a \<noteq> ''function''"
  by (cases a) (simp_all add: typeof_val_not_function)

lemma handles_fresh_cell: "handles_fresh (cell s)"
  by (simp add: handles_fresh_def cell_def pusu_createPublication_def)

lemma handles_fresh_update: "handles_fresh c \<Longrightarrow> handles_fresh (snd (update r c))"
  by (simp add: handles_fresh_def update_publication)

lemma handles_fresh_unsubscribe: "handles_fresh c \<Longrightarrow> handles_fresh (snd (unsubscribe u c))"
  by (auto simp: handles_fresh_def unsubscribe_eq list_all_iff)

lemma handles_fresh_subscribe: "handles_fresh c \<Longrightarrow> handles_fresh (snd (subscribe sub sel eq c))"
  by (cases sub)
    (auto simp: handles_fresh_def subscribe_def pusu_subscribe_def Let_def list_all_iff)

lemma filter_fresh:
  "list_all (\<lambda>(i, h). i < (n::nat)) hs \<Longrightarrow> filter (\<lambda>(i, h). i \<noteq> n) hs = hs"
  by (induction hs) auto

lemma subscribe_then_unsubscribe:
  assumes "handles_fresh c" and "subscribe sub sel eq c = (Inr u, c1)"
  shows "subscribers (publication (snd (unsubscribe u c1))) = subscribers (publication c)"
proof -
  have u: "u = next_handle (publication c)"
    and s: "\<exists>h. subscribers (publication c1) = subscribers (publication c) @ [(next_handle (publication c), h)]"
    using assms(2)
    by (cases sub; auto simp: subscribe_def pusu_subscribe_def Let_def split: if_splits)+
  then show ?thesis
    using assms(1) by (auto simp: unsubscribe_eq handles_fresh_def filter_fresh)
qed




lemma subscribe_live_silent:
  "subscribe_live upd silent sub sel eq c = Some (subscribe sub sel eq c)"
  by (cases sub)
    (simp_all add: subscribe_live_def subscribe_def call_subscriber_def silent_def
      pusu_subscribe_def Let_def)

lemma pusu_publish_live_foldl:
  "pusu_publish_live hs (\<lambda>h w. Some (deliver h w)) w =
     Some (foldl (\<lambda>w' (i, h). deliver h w') w hs)"
  by (induction hs arbitrary: w) auto

lemma pusu_publish_live_total:
  "pusu_publish_live (subscribers pub) (\<lambda>h w. Some (deliver h w)) w =
     Some (pusu_publish pub deliver w)"
  by (simp add: pusu_publish_live_foldl pusu_publish_def)






section \<open>Claims\<close>




text \<open>
  C2 as stated fails: it promises one call per \<^verbatim>\<open>update\<close>. A subscriber without
  selector and equality policy is still gated by strict identity, so an update whose
  transform returns the state it was given calls nobody: after \<^verbatim>\<open>cell(0)\<close>,
  \<^verbatim>\<open>subscribe(f)\<close> and one \<^verbatim>\<open>update(s => s)\<close> the subscriber has been called once,
  not twice.
\<close>

theorem C2_counterexample:
  "length (invocations 7 (trace (run_updates (map pure_reducer [\<lambda>s. s])
      (snd (subscribe (Fn 7) omitted omitted (cell (JNum 0))))))) \<noteq> length [\<lambda>s::jsval. s] + 1"
  by (simp add: run_updates_def pure_reducer_def omitted_def subscribe_ok cell_def update_ok
      dispatch_spec_def select_def pusu_createPublication_def invocations_append)

text \<open>
  C2, amended. After \<^verbatim>\<open>cell(S0)\<close> and \<^verbatim>\<open>subscribe(f)\<close> with no selector and no equality
  policy, a sequence of updates with transforms \<open>t\<^sub>1, ..., t\<^sub>n\<close> that return normally
  calls \<open>f\<close> first with \<open>S0\<close> and then once for each update whose folded state is not
  strictly identical to the state before that update, with that folded state and in
  order. When every update changes the state, these are \<open>n + 1\<close> calls, the \<open>i\<close>-th
  update's call carrying \<open>t\<^sub>i (... (t\<^sub>1 S0))\<close>.
\<close>

theorem C2_invocations:
  "invocations f (trace (run_updates (map pure_reducer ts)
      (snd (subscribe (Fn f) omitted omitted (cell S0))))) = S0 # changes S0 (folded S0 ts)
 \<and> ((\<forall>i < length ts. \<not> strict_eq (folded S0 ts ! i) ((S0 # folded S0 ts) ! i)) \<longrightarrow>
      invocations f (trace (run_updates (map pure_reducer ts)
        (snd (subscribe (Fn f) omitted omitted (cell S0))))) = S0 # folded S0 ts
    \<and> length (invocations f (trace (run_updates (map pure_reducer ts)
        (snd (subscribe (Fn f) omitted omitted (cell S0)))))) = length ts + 1)"
proof -
  let ?c1 = "snd (subscribe (Fn f) omitted omitted (cell S0))"
  have subs: "subscribers (publication ?c1) =
      [(0, \<lparr>h_subscriber = f, h_selector = None, h_isEqual = None\<rparr>)]"
    by (simp add: omitted_def subscribe_ok cell_def pusu_createPublication_def)
  have cur: "currentState ?c1 = S0"
    by (simp add: omitted_def subscribe_ok cell_def)
  have tr: "invocations f (trace ?c1) = [S0]"
    by (simp add: omitted_def subscribe_ok cell_def select_def)
  have main: "invocations f (trace (run_updates (map pure_reducer ts) ?c1)) =
      S0 # changes S0 (folded S0 ts)"
    using updates_single [OF subs, of ts] by (simp add: cur tr)
  show ?thesis
    using main by (auto simp: changes_all length_folded)
qed

theorem C2_invocations_witness:
  "invocations 7 (trace (run_updates (map pure_reducer [\<lambda>s. JNum 1, \<lambda>s. s, \<lambda>s. JNum 2])
      (snd (subscribe (Fn 7) omitted omitted (cell (JNum 0)))))) = [JNum 0, JNum 1, JNum 2]
 \<and> invocations 7 (trace (run_updates (map pure_reducer [\<lambda>s. JNum 1, \<lambda>s. JNum 2])
      (snd (subscribe (Fn 7) omitted omitted (cell (JNum 0)))))) = [JNum 0, JNum 1, JNum 2]
 \<and> length (invocations 7 (trace (run_updates (map pure_reducer [\<lambda>s. JNum 1, \<lambda>s. JNum 2])
      (snd (subscribe (Fn 7) omitted omitted (cell (JNum 0))))))) = 3"
  using C2_invocations [of 7 "[\<lambda>s. JNum 1, \<lambda>s. s, \<lambda>s. JNum 2]" "JNum 0"]
    C2_invocations [of 7 "[\<lambda>s. JNum 1, \<lambda>s. JNum 2]" "JNum 0"]
  by (simp add: nth_Cons' less_Suc_eq)

text \<open>
  C3 as stated fails: the checks of \<^verbatim>\<open>selector\<close> and \<^verbatim>\<open>isEqual\<close> are guarded by the
  argument's truthiness (\<^verbatim>\<open>selector && typeof selector !== "function"\<close>), so a supplied
  falsy value that is not callable, such as \<^verbatim>\<open>0\<close> or \<^verbatim>\<open>false\<close>, is accepted and the
  subscription is registered.
\<close>

theorem C3_counterexample:
  "fst (subscribe (Fn 7) (Data (JNum 0)) omitted (cell JNull)) = Inr 0
 \<and> fst (subscribe (Fn 7) omitted (Data (JBool False)) (cell JNull)) = Inr 0"
  by (simp add: omitted_def subscribe_ok cell_def pusu_createPublication_def)

text \<open>
  C3, amended. \<^verbatim>\<open>subscribe\<close> validates before any effect. Every subscriber that is not
  a function fails with \<open>InvalidSubscriber\<close>; with a function as subscriber, every
  truthy selector that is not a function fails with \<open>InvalidSelector\<close>; with a
  function as subscriber and a selector that is a function or falsy, every truthy
  equality policy that is not a function fails with \<open>InvalidEqualityPolicy\<close>. The
  three failures are distinct, and each leaves the container as it was: nothing is
  registered and nobody is called. A falsy selector or equality policy is read as
  an omitted one.
\<close>

theorem C3_validation:
  "subscribe (Data v) selector isEqual c = (Inl InvalidSubscriber, c)
 \<and> (truthy w \<longrightarrow> subscribe (Fn f) (Data w) isEqual c = (Inl InvalidSelector, c))
 \<and> (truthy w \<and> (\<not> truthy_arg selector \<or> typeof selector = ''function'') \<longrightarrow>
      subscribe (Fn f) selector (Data w) c = (Inl InvalidEqualityPolicy, c))
 \<and> (\<not> truthy v \<longrightarrow> subscribe (Fn f) (Data v) isEqual c = subscribe (Fn f) omitted isEqual c)
 \<and> (\<not> truthy v \<longrightarrow> subscribe (Fn f) selector (Data v) c = subscribe (Fn f) selector omitted c)
 \<and> InvalidSubscriber \<noteq> InvalidSelector \<and> InvalidSubscriber \<noteq> InvalidEqualityPolicy
 \<and> InvalidSelector \<noteq> InvalidEqualityPolicy"
proof (intro conjI impI)
  show "subscribe (Data v) selector isEqual c = (Inl InvalidSubscriber, c)"
    by (simp add: subscribe_data InvalidSubscriber_def)
  show "subscribe (Fn f) (Data w) isEqual c = (Inl InvalidSelector, c)" if "truthy w"
    using that by (simp add: subscribe_bad_selector InvalidSelector_def)
  show "subscribe (Fn f) selector (Data w) c = (Inl InvalidEqualityPolicy, c)"
    if "truthy w \<and> (\<not> truthy_arg selector \<or> typeof selector = ''function'')"
    using that subscribe_bad_isEqual [of w selector f c] by (simp add: InvalidEqualityPolicy_def)
  show "subscribe (Fn f) (Data v) isEqual c = subscribe (Fn f) omitted isEqual c" if "\<not> truthy v"
    using that by (simp add: subscribe_def omitted_def)
  show "subscribe (Fn f) selector (Data v) c = subscribe (Fn f) selector omitted c" if "\<not> truthy v"
    using that by (simp add: subscribe_def omitted_def)
qed (simp_all add: InvalidSubscriber_def InvalidSelector_def InvalidEqualityPolicy_def)

theorem C3_validation_witness:
  "subscribe (Data (JArr 4 [JNum 1, JNum 2, JNum 3])) omitted omitted (cell JNull) =
     (Inl InvalidSubscriber, cell JNull)
 \<and> subscribe (Fn 7) (Data (JStr ''string'')) omitted (cell JNull) = (Inl InvalidSelector, cell JNull)
 \<and> subscribe (Fn 7) (Fn (\<lambda>s. s)) (Data (JNum 123)) (cell JNull) =
     (Inl InvalidEqualityPolicy, cell JNull)
 \<and> subscribe (Fn 7) (Data JNull) omitted (cell JNull) = subscribe (Fn 7) omitted omitted (cell JNull)
 \<and> subscribe (Fn 7) omitted (Data (JStr [])) (cell JNull) = subscribe (Fn 7) omitted omitted (cell JNull)"
  using C3_validation [where v = "JArr 4 [JNum 1, JNum 2, JNum 3]" and selector = omitted
      and isEqual = omitted and c = "cell JNull" and w = "JStr ''string''" and f = 7]
    C3_validation [where v = JNull and selector = "Fn (\<lambda>s. s)" and isEqual = omitted
      and c = "cell JNull" and w = "JNum 123" and f = 7]
    C3_validation [where v = "JStr []" and selector = omitted and isEqual = omitted
      and c = "cell JNull" and w = "JNum 123" and f = 7]
  by simp





text \<open>
  C6. Calling the function that \<^verbatim>\<open>subscribe\<close> returned does not raise and removes that
  registration and no other. From then on no update, whatever its transform, calls the
  subscriber again, provided no other registration still holds the same function. A
  second call of the function does not raise and changes nothing. Handles are not
  reused, so subscribing and then calling the returned function leaves the
  registrations as they were before.
\<close>

theorem C6_unsubscribe:
  "fst (unsubscribe u c) = Inr ()
 \<and> subscribers (publication (snd (unsubscribe u c))) =
      filter (\<lambda>(i, h). i \<noteq> u) (subscribers (publication c))
 \<and> unsubscribe u (snd (unsubscribe u c)) = (Inr (), snd (unsubscribe u c))
 \<and> ((\<forall>(i, h) \<in> set (subscribers (publication c)). i \<noteq> u \<longrightarrow> h_subscriber h \<noteq> f) \<longrightarrow>
      invocations f (trace (run_updates rs (snd (unsubscribe u c)))) = invocations f (trace c))
 \<and> (handles_fresh c0 \<and> subscribe sub sel eq c0 = (Inr u0, c1) \<longrightarrow>
      subscribers (publication (snd (unsubscribe u0 c1))) = subscribers (publication c0))"
proof (intro conjI impI)
  assume h: "\<forall>(i, h) \<in> set (subscribers (publication c)). i \<noteq> u \<longrightarrow> h_subscriber h \<noteq> f"
  then have "\<forall>(i, h) \<in> set (subscribers (publication (snd (unsubscribe u c)))). h_subscriber h \<noteq> f"
    by (auto simp: unsubscribe_eq)
  then have "invocations f (trace (run_updates rs (snd (unsubscribe u c)))) =
      invocations f (trace (snd (unsubscribe u c)))"
    by (rule run_updates_invocations_none)
  then show "invocations f (trace (run_updates rs (snd (unsubscribe u c)))) = invocations f (trace c)"
    by (simp add: unsubscribe_eq)
next
  assume "handles_fresh c0 \<and> subscribe sub sel eq c0 = (Inr u0, c1)"
  then show "subscribers (publication (snd (unsubscribe u0 c1))) = subscribers (publication c0)"
    by (auto intro: subscribe_then_unsubscribe)
qed (simp_all add: unsubscribe_eq)

theorem C6_unsubscribe_witness:
  "(let c1 = snd (subscribe (Fn 7) omitted omitted (cell (JNum 0)));
        c2 = snd (update (pure_reducer (\<lambda>s. JNum 1)) c1);
        c3 = snd (unsubscribe 0 c2);
        c4 = run_updates [pure_reducer (\<lambda>s. JNum 2), pure_reducer (\<lambda>s. JNum 3)] c3
    in subscribe (Fn 7) omitted omitted (cell (JNum 0)) = (Inr 0, c1)
     \<and> handles_fresh (cell (JNum 0))
     \<and> subscribers (publication (snd (unsubscribe 0 c1))) = []
     \<and> invocations 7 (trace c2) = [JNum 0, JNum 1]
     \<and> fst (unsubscribe 0 c2) = Inr ()
     \<and> subscribers (publication c3) = []
     \<and> invocations 7 (trace c4) = [JNum 0, JNum 1]
     \<and> unsubscribe 0 c3 = (Inr (), c3))"
proof -
  let ?c1 = "snd (subscribe (Fn 7) omitted omitted (cell (JNum 0)))"
  let ?c2 = "snd (update (pure_reducer (\<lambda>s. JNum 1)) ?c1)"
  let ?c3 = "snd (unsubscribe 0 ?c2)"
  let ?rs = "[pure_reducer (\<lambda>s. JNum 2), pure_reducer (\<lambda>s. JNum 3)]"
  note inst = C6_unsubscribe [where u = 0 and c = ?c2 and f = 7 and rs = ?rs
      and ?c0.0 = "cell (JNum 0)" and sub = "Fn 7" and sel = omitted and eq = omitted
      and ?u0.0 = 0 and ?c1.0 = ?c1]
  have subs: "subscribers (publication ?c2) =
      [(0, \<lparr>h_subscriber = 7, h_selector = None, h_isEqual = None\<rparr>)]"
    by (simp add: update_publication omitted_def subscribe_ok cell_def pusu_createPublication_def)
  have inv: "invocations 7 (trace ?c2) = [JNum 0, JNum 1]"
    by (simp add: update_pure omitted_def subscribe_ok cell_def pusu_createPublication_def
        select_def dispatch_spec_def invocations_append)
  have h0: "subscribe (Fn 7) omitted omitted (cell (JNum 0)) = (Inr 0, ?c1)"
    by (simp add: omitted_def subscribe_ok cell_def pusu_createPublication_def)
  have fresh: "handles_fresh (cell (JNum 0))"
    by (rule handles_fresh_cell)
  have empty: "subscribers (publication (cell (JNum 0))) = []"
    by (simp add: cell_def pusu_createPublication_def)
  have undone: "subscribers (publication (snd (unsubscribe 0 ?c1))) = []"
    using inst fresh h0 empty by metis
  have noraise: "fst (unsubscribe 0 ?c2) = Inr ()"
    using inst by (rule conjunct1)
  have removed: "subscribers (publication ?c3) = []"
    using inst [THEN conjunct2, THEN conjunct1] by (simp add: subs)
  have again: "unsubscribe 0 ?c3 = (Inr (), ?c3)"
    using inst [THEN conjunct2, THEN conjunct2, THEN conjunct1] .
  have silent: "invocations 7 (trace (run_updates ?rs ?c3)) = [JNum 0, JNum 1]"
    using inst [THEN conjunct2, THEN conjunct2, THEN conjunct2, THEN conjunct1]
    by (simp add: subs inv)
  show ?thesis
    unfolding Let_def
    using h0 fresh undone inv noraise removed silent again by (intro conjI)
qed

text \<open>
  C7. \<^verbatim>\<open>update\<close> does not check its argument. A value that is not a function fails at
  the call with the runtime's \<^verbatim>\<open>TypeError\<close> and no transform is run. A function is
  called exactly once, with the container's current state, and what it throws is what
  \<^verbatim>\<open>update\<close> throws, unchanged; when it returns, its result is the new current state.
\<close>

theorem C7_update_transform:
  "fst (update (Data v) c) = Inl (TypeError ''reducer is not a function'')
 \<and> reducer_calls (trace (snd (update (Data v) c))) = reducer_calls (trace c)
 \<and> reducer_calls (trace (snd (update (Fn r) c))) = reducer_calls (trace c) @ [currentState c]
 \<and> (r (currentState c) = Inl e \<longrightarrow> fst (update (Fn r) c) = Inl e)
 \<and> (r (currentState c) = Inr N \<longrightarrow>
      fst (update (Fn r) c) = Inr () \<and> currentState (snd (update (Fn r) c)) = N)"
  by (simp add: update_not_callable update_reducer_calls update_throw update_ok)

theorem C7_update_transform_witness:
  "fst (update (Data (JNum 5)) (cell (JNum 0))) = Inl (TypeError ''reducer is not a function'')
 \<and> reducer_calls (trace (snd (update (Fn (\<lambda>s. Inl (Thrown (JStr ''boom'')))) (cell (JNum 0))))) = [JNum 0]
 \<and> fst (update (Fn (\<lambda>s. Inl (Thrown (JStr ''boom'')))) (cell (JNum 0))) = Inl (Thrown (JStr ''boom''))
 \<and> fst (update (Fn (\<lambda>s. Inr (JNum 1))) (cell (JNum 0))) = Inr ()
 \<and> currentState (snd (update (Fn (\<lambda>s. Inr (JNum 1))) (cell (JNum 0)))) = JNum 1"
  using C7_update_transform [where v = "JNum 5" and c = "cell (JNum 0)"
      and r = "\<lambda>s. Inl (Thrown (JStr ''boom''))" and e = "Thrown (JStr ''boom'')"]
    C7_update_transform [where c = "cell (JNum 0)" and r = "\<lambda>s. Inr (JNum 1)" and N = "JNum 1"]
  by (simp add: cell_fields)

text \<open>
  C8 as stated fails: \<^verbatim>\<open>cell\<close> has one parameter. Called with the initial state
  \<^verbatim>\<open>0\<close> and a configuration that names the container and switches logging on, it
  does not read the configuration and writes to no log sink, so no \<^verbatim>\<open>create\<close> event
  is emitted.
\<close>

theorem C8_counterexample: "logged (trace (cell_call [JNum 0, logging_config])) = []"
  by (simp add: cell_call_def cell_fields)

text \<open>
  C8, amended. Creation reads the initial state alone: a configuration given beside it
  has no effect, so there is no name option and no logging option. Creation allocates
  one topic, created with the name \<^verbatim>\<open>"cell"\<close> and without handlers, sets
  \<open>previousState\<close> and \<open>currentState\<close> to the initial state and emits nothing; no
  operation of the container emits an event.
\<close>

theorem C8_creation:
  "cell_call (s # rest) = cell s
 \<and> cell_call [] = cell JUndefined
 \<and> previousState (cell s) = s \<and> currentState (cell s) = s
 \<and> config (publication (cell s)) = JStr ''cell''
 \<and> subscribers (publication (cell s)) = []
 \<and> trace (cell s) = []
 \<and> logged (trace (snd (subscribe sub sel eq c))) = logged (trace c)
 \<and> logged (trace (snd (update r c))) = logged (trace c)
 \<and> logged (trace (snd (unsubscribe u c))) = logged (trace c)"
  by (simp add: cell_call_def cell_def pusu_createPublication_def subscribe_fields update_logged
      unsubscribe_eq)

theorem C8_creation_witness:
  "cell_call [JNum 0, logging_config] = cell (JNum 0)
 \<and> currentState (cell_call [JNum 0, logging_config]) = JNum 0
 \<and> previousState (cell_call [JNum 0, logging_config]) = JNum 0
 \<and> logged (trace (snd (update (Fn (\<lambda>s. Inr (JNum 1))) (cell_call [JNum 0, logging_config])))) = []"
proof -
  note inst = C8_creation [where s = "JNum 0" and rest = "[logging_config]"
      and c = "cell (JNum 0)" and r = "Fn (\<lambda>s. Inr (JNum 1))"]
  have ignored: "cell_call [JNum 0, logging_config] = cell (JNum 0)"
    using inst by (rule conjunct1)
  have fields: "previousState (cell (JNum 0)) = JNum 0" "currentState (cell (JNum 0)) = JNum 0"
    "trace (cell (JNum 0)) = []"
    using inst by simp_all
  have quiet: "logged (trace (snd (update (Fn (\<lambda>s. Inr (JNum 1))) (cell (JNum 0))))) =
      logged (trace (cell (JNum 0)))"
    using inst by blast
  show ?thesis
    unfolding ignored using fields quiet by simp
qed

text \<open>
  C9. When the transform throws on the current state, \<^verbatim>\<open>update\<close> throws the same
  value, publishes nothing (no subscriber is called, no registration changes) and
  leaves \<open>currentState\<close> as it was; \<open>previousState\<close> has already been overwritten
  with the current state, so what it held before is lost.
\<close>

theorem C9_throwing_transform:
  assumes "r (currentState c) = Inl e"
  shows "fst (update (Fn r) c) = Inl e
 \<and> currentState (snd (update (Fn r) c)) = currentState c
 \<and> previousState (snd (update (Fn r) c)) = currentState c
 \<and> publication (snd (update (Fn r) c)) = publication c
 \<and> trace (snd (update (Fn r) c)) = trace c @ [CallReducer (currentState c)]
 \<and> invocations f (trace (snd (update (Fn r) c))) = invocations f (trace c)"
  using assms by (simp add: update_throw invocations_append)

theorem C9_throwing_transform_witness:
  "(let c = snd (update (pure_reducer (\<lambda>s. JNum 1)) (snd (subscribe (Fn 7) omitted omitted (cell (JNum 0)))));
        c' = snd (update (Fn (\<lambda>s. Inl (Thrown (JStr ''boom'')))) c)
    in previousState c = JNum 0 \<and> currentState c = JNum 1
     \<and> fst (update (Fn (\<lambda>s. Inl (Thrown (JStr ''boom'')))) c) = Inl (Thrown (JStr ''boom''))
     \<and> previousState c' = JNum 1 \<and> currentState c' = JNum 1
     \<and> invocations 7 (trace c') = invocations 7 (trace c))"
proof -
  let ?c = "snd (update (pure_reducer (\<lambda>s. JNum 1)) (snd (subscribe (Fn 7) omitted omitted (cell (JNum 0)))))"
  have prev: "previousState ?c = JNum 0" and cur: "currentState ?c = JNum 1"
    by (simp_all add: update_pure subscribe_fields cell_fields)
  show ?thesis
    unfolding Let_def
    using C9_throwing_transform [where r = "\<lambda>s. Inl (Thrown (JStr ''boom''))" and c = ?c
        and e = "Thrown (JStr ''boom'')" and f = 7] prev cur
    by (simp add: invocations_append)
qed

text \<open>
  C10 as stated fails: the versions differ in more than the operation's name and the
  argument of \<^verbatim>\<open>createPublication\<close>. For a truthy equality policy that is not a
  function, the two versions of \<^verbatim>\<open>src/index.ts\<close> throw
  \<^verbatim>\<open>Error("areEqual must be a function.")\<close> and the third throws
  \<^verbatim>\<open>Error("isEqual must be a function.")\<close>.
\<close>

theorem C10_counterexample:
  "index1_subscribe (Fn 7) omitted (Data (JBool True)) (cell JNull) \<noteq>
     subscribe (Fn 7) omitted (Data (JBool True)) (cell JNull)
 \<and> index2_subscribe (Fn 7) omitted (Data (JBool True)) (cell JNull) \<noteq>
     subscribe (Fn 7) omitted (Data (JBool True)) (cell JNull)"
  by (simp add: index1_subscribe_def index2_subscribe_def subscribe_def omitted_def)

text \<open>
  C10, amended. The second version of \<^verbatim>\<open>src/index.ts\<close> creates the same container as
  the third version, the first differs in the argument given to
  \<^verbatim>\<open>createPublication\<close> alone; \<^verbatim>\<open>publish\<close> of either is \<^verbatim>\<open>update\<close>; and
  \<^verbatim>\<open>subscribe\<close> of either is \<^verbatim>\<open>subscribe\<close> of the third, except that the failure for
  an equality policy that is not a function carries the message with \<^verbatim>\<open>areEqual\<close> in
  place of \<^verbatim>\<open>isEqual\<close>.
\<close>

theorem C10_variants:
  "index2_cell s = cell s
 \<and> index1_cell s = (cell s)\<lparr>publication := pusu_createPublication (JObj 0 [(''name'', JStr ''cell'')])\<rparr>
 \<and> index1_publish = update \<and> index2_publish = update
 \<and> index1_subscribe = index2_subscribe
 \<and> index1_subscribe sub sel eq c =
      (case subscribe sub sel eq c of
         (Inl e, c') \<Rightarrow> (Inl (rename_isEqual e), c')
       | (Inr u, c') \<Rightarrow> (Inr u, c'))"
proof (intro conjI)
  show "index1_publish = update"
    by (intro ext) (simp add: index1_publish_def update_def)
  show "index2_publish = update"
    by (intro ext) (simp add: index2_publish_def update_def)
  show "index1_subscribe = index2_subscribe"
    by (intro ext) (simp add: index1_subscribe_def index2_subscribe_def)
  show "index1_subscribe sub sel eq c =
      (case subscribe sub sel eq c of
         (Inl e, c') \<Rightarrow> (Inl (rename_isEqual e), c')
       | (Inr u, c') \<Rightarrow> (Inr u, c'))"
    by (cases sub)
      (simp_all add: index1_subscribe_def subscribe_def rename_isEqual_def pusu_subscribe_def Let_def)
qed (simp_all add: index1_cell_def index2_cell_def cell_def)

theorem C10_variants_witness:
  "index1_subscribe (Fn 7) omitted (Data (JBool True)) (cell JNull) =
     (Inl (Error ''areEqual must be a function.''), cell JNull)
 \<and> index1_subscribe (Fn 7) (Data (JBool True)) omitted (cell JNull) =
     subscribe (Fn 7) (Data (JBool True)) omitted (cell JNull)
 \<and> index1_subscribe (Fn 7) omitted omitted (cell JNull) = subscribe (Fn 7) omitted omitted (cell JNull)"
proof -
  note last = conjunct2 [THEN conjunct2, THEN conjunct2, THEN conjunct2, THEN conjunct2]
  have e1: "index1_subscribe (Fn 7) omitted (Data (JBool True)) (cell JNull) =
      (case subscribe (Fn 7) omitted (Data (JBool True)) (cell JNull) of
         (Inl e, c') \<Rightarrow> (Inl (rename_isEqual e), c')
       | (Inr u, c') \<Rightarrow> (Inr u, c'))"
    by (rule C10_variants [THEN last])
  have e2: "index1_subscribe (Fn 7) (Data (JBool True)) omitted (cell JNull) =
      (case subscribe (Fn 7) (Data (JBool True)) omitted (cell JNull) of
         (Inl e, c') \<Rightarrow> (Inl (rename_isEqual e), c')
       | (Inr u, c') \<Rightarrow> (Inr u, c'))"
    by (rule C10_variants [THEN last])
  have e3: "index1_subscribe (Fn 7) omitted omitted (cell JNull) =
      (case subscribe (Fn 7) omitted omitted (cell JNull) of
         (Inl e, c') \<Rightarrow> (Inl (rename_isEqual e), c')
       | (Inr u, c') \<Rightarrow> (Inr u, c'))"
    by (rule C10_variants [THEN last])
  show ?thesis
    unfolding e1 e2 e3
    by (simp add: subscribe_def omitted_def rename_isEqual_def pusu_subscribe_def)
qed

end
